theory Spec2Isabelle
  imports Main
begin

section \<open>JavaScript values\<close>

text \<open>
  Field values of the objects that travel between the browser and the region controller.
  Numbers are the integers MAAS uses for identifiers, VLAN ids and type codes; the one
  non-integer numbers the code can meet, the NaN or infinity \<open>parseInt\<close> may return, are
  values of \<open>jsnumber\<close> below. An object is an association list from property names to values, in
  the order the properties were written.
\<close>

datatype jsval =
    JUndefined
  | JNull
  | JBool bool
  | JNum int
  | JStr string
  | JArr "jsval list"
  | JObj "(string \<times> jsval) list"

type_synonym jsobj = "(string \<times> jsval) list"

datatype jserror = TypeError

text \<open>\<open>obj.k\<close> for an object \<open>obj\<close>: the value of the property, \<open>undefined\<close> when it has none.\<close>

definition fld :: "jsobj \<Rightarrow> string \<Rightarrow> jsval" where
  "fld obj k = (case map_of obj k of None \<Rightarrow> JUndefined | Some v \<Rightarrow> v)"

text \<open>\<open>obj.k = v\<close>: overwrite the property where it stands, or append it.\<close>

fun put :: "jsobj \<Rightarrow> string \<Rightarrow> jsval \<Rightarrow> jsobj" where
  "put [] k v = [(k, v)]"
| "put ((k', v') # ps) k v = (if k' = k then (k, v) # ps else (k', v') # put ps k v)"

text \<open>\<open>angular.isString\<close> is \<open>typeof v === 'string'\<close>.\<close>

fun isString :: "jsval \<Rightarrow> bool" where
  "isString (JStr s) = True"
| "isString v = False"

text \<open>The truth value JavaScript gives a value in a condition.\<close>

fun truthy :: "jsval \<Rightarrow> bool" where
  "truthy JUndefined = False"
| "truthy JNull = False"
| "truthy (JBool b) = b"
| "truthy (JNum n) = (n \<noteq> 0)"
| "truthy (JStr s) = (s \<noteq> [])"
| "truthy (JArr xs) = True"
| "truthy (JObj ps) = True"

text \<open>The decimal numeral of a natural number, most significant digit first.\<close>

fun nat_str :: "nat \<Rightarrow> string" where
  "nat_str n =
     (if n < 10 then [''0123456789'' ! n]
      else nat_str (n div 10) @ [''0123456789'' ! (n mod 10)])"

declare nat_str.simps [simp del]

definition int_str :: "int \<Rightarrow> string" where
  "int_str i = (if i < 0 then CHR ''-'' # nat_str (nat (- i)) else nat_str (nat i))"

text \<open>\<open>Array.prototype.join\<close> with separator \<open>","\<close> over elements already turned to strings.\<close>

fun join_comma :: "string list \<Rightarrow> string" where
  "join_comma [] = []"
| "join_comma [s] = s"
| "join_comma (s # t # ss) = s @ CHR '','' # join_comma (t # ss)"

text \<open>
  The string the \<open>+\<close> operator concatenates for a value (ToString): an array joins its
  elements with commas, \<open>null\<close> and \<open>undefined\<close> elements giving the empty string; a plain
  object gives \<open>[object Object]\<close>.
\<close>

fun toStr :: "jsval \<Rightarrow> string" where
  "toStr JUndefined = ''undefined''"
| "toStr JNull = ''null''"
| "toStr (JBool b) = (if b then ''true'' else ''false'')"
| "toStr (JNum n) = int_str n"
| "toStr (JStr s) = s"
| "toStr (JArr xs) =
     join_comma (map (\<lambda>x. if x = JUndefined \<or> x = JNull then [] else toStr x) xs)"
| "toStr (JObj ps) = ''[object Object]''"

section \<open>The region connection\<close>

record request =
  requestId :: nat
  methodName :: string
  params :: jsobj

record connection =
  lastId :: nat
  pending :: "(nat \<times> bool) list"
  sentData :: "request list"

text \<open>The promise \<open>callMethod\<close> returns, named by the request it waits for.\<close>

datatype promise = RpcPromise nat

text \<open>
  Modelled from the spec: \<open>RegionConnection.callMethod\<close> is not among the sources. Following
  section 4.1, \<open>callMethod(methodName, params, suppressErrorDialog=false)\<close> gives the request a
  fresh request id, stores a pending-response entry (here with the dialog flag), sends the
  request and returns the promise of its response.
\<close>

definition callMethod :: "string \<Rightarrow> jsobj \<Rightarrow> bool \<Rightarrow> connection \<Rightarrow> promise \<times> connection" where
  "callMethod m p suppress c =
     (let rid = lastId c + 1 in
      (RpcPromise rid,
       c\<lparr>lastId := rid,
         pending := pending c @ [(rid, suppress)],
         sentData := sentData c @ [\<lparr>requestId = rid, methodName = m, params = p\<rparr>]\<rparr>))"

text \<open>How a promise has settled when its callbacks are looked at.\<close>

datatype ('a, 'e) outcome = Pending | Resolved 'a | Rejected 'e

section \<open>VLANsManager (factories/vlans.js)\<close>

text \<open>
  The manager's own fields: \<open>_pk\<close>, \<open>_handler\<close>, and the cached collection \<open>_items\<close> and the
  active item it inherits from \<open>Manager\<close>. The world of the factory is the connection and
  the manager.
\<close>

record manager =
  pk :: string
  handler :: string
  items :: "jsobj list"
  activeItem :: "jsobj option"

record world =
  region :: connection
  vlans :: manager

definition VLANsManager :: manager where
  "VLANsManager = \<lparr>pk = ''id'', handler = ''vlan'', items = [], activeItem = None\<rparr>"

definition getName :: "jsobj \<Rightarrow> jsval" where
  "getName vlan =
     (let name = fld vlan ''vid'' in
      if fld vlan ''vid'' = JNum 0 then JStr ''untagged''
      else if isString (fld vlan ''name'') \<and> fld vlan ''name'' \<noteq> JStr ''''
      then JStr (toStr name @ ('' ('' @ toStr (fld vlan ''name'') @ '')''))
      else name)"

definition deleteVLAN :: "jsobj \<Rightarrow> world \<Rightarrow> promise \<times> world" where
  "deleteVLAN vlan w =
     (let (p, c) = callMethod ''vlan.delete'' [(''id'', fld vlan ''id'')] True (region w)
      in (p, w\<lparr>region := c\<rparr>))"

definition configureDHCP :: "jsobj \<Rightarrow> jsval \<Rightarrow> jsval \<Rightarrow> world \<Rightarrow> promise \<times> world" where
  "configureDHCP vlan controllers extra w =
     (let (p, c) = callMethod ''vlan.configure_dhcp''
                     [(''id'', fld vlan ''id''),
                      (''controllers'', controllers),
                      (''extra'', extra)] True (region w)
      in (p, w\<lparr>region := c\<rparr>))"

definition disableDHCP :: "jsobj \<Rightarrow> world \<Rightarrow> promise \<times> world" where
  "disableDHCP vlan w =
     (let (p, c) = callMethod ''vlan.configure_dhcp''
                     [(''id'', fld vlan ''id''),
                      (''controllers'', JArr [])] True (region w)
      in (p, w\<lparr>region := c\<rparr>))"

text \<open>\<open>create\<close> passes no third argument: the dialog flag is \<open>undefined\<close>, which is false.\<close>

definition create :: "jsobj \<Rightarrow> world \<Rightarrow> promise \<times> world" where
  "create vlan w =
     (let (p, c) = callMethod ''vlan.create'' vlan False (region w)
      in (p, w\<lparr>region := c\<rparr>))"

section \<open>The managers the controller reads\<close>

text \<open>
  \<open>===\<close> compares primitives by type and value. Two object or array values are strictly
  equal only when they are the same object; the model holds no object identities and
  compares their contents instead, which is exact whenever one side is a primitive.
\<close>

definition strictEq :: "jsval \<Rightarrow> jsval \<Rightarrow> bool" where
  "strictEq a b = (a = b)"

text \<open>
  Modelled from the spec: \<open>Manager.getItemFromList\<close> and \<open>Manager.getItem\<close> are not among the
  sources. Following \<open>getItem(pk) -> ManagedObject | undefined\<close> of section 4.2, the lookup
  gives the first cached object whose primary key (\<open>id\<close> for every manager here) strictly
  equals the given value, and \<open>None\<close>, the absent referent, when there is no such object.
\<close>

definition getItemFromList :: "jsobj list \<Rightarrow> jsval \<Rightarrow> jsobj option" where
  "getItemFromList its pk_value = find (\<lambda>item. strictEq (fld item ''id'') pk_value) its"

section \<open>Frames from the region controller\<close>

text \<open>
  The constructor of \<open>vlans.js\<close> registers a notifier for \<open>"vlan"\<close> whose only statement is
  \<open>self.onNotify(action, data)\<close>. What a frame received from the region controller does to
  the manager therefore goes through \<open>RegionConnection\<close> and \<open>Manager\<close>, which are not among the
  sources and are modelled from the spec below. The client is the world of the factory
  together with the notification subscriptions of the connection and the promises that
  have settled. Subscriptions of other managers write their own collections only
  (section 5: each collection has a single writer) and are left out, and so is
  \<open>Manager.load\<close>, which refills a collection from the response to a \<open>list\<close> call.
\<close>

datatype notifier = VlanOnNotify

text \<open>
  A notification (section 6) carries an action and data, \<open>data: <object or pk>\<close>: the object
  for the actions the spec writes \<open>create\<close> and \<open>update\<close> (\<open>created\<close> and \<open>updated\<close> on the
  wire), the primary key for \<open>delete\<close> (\<open>deleted\<close>).
\<close>

datatype notification = Created jsobj | Updated jsobj | Deleted jsval

text \<open>
  The inbound frames of section 6: a response with a result, a response with an error, a
  notification for a type key, and anything else.
\<close>

datatype frame =
    ResultFrame nat jsval
  | ErrorFrame nat jsval
  | NotifyFrame string notification
  | UnknownFrame

record client =
  site :: world
  notifiers :: "(string \<times> notifier) list"
  settledPromises :: "(nat \<times> (jsval, jsval) outcome) list"

text \<open>
  Modelled from the spec: \<open>RegionConnection.registerNotifier\<close> is not among the sources.
  Following section 4.1, \<open>registerNotifier(typeKey, callback)\<close> adds the callback to the
  subscriptions of the type key and is idempotent per pair.
\<close>

definition registerNotifier :: "string \<Rightarrow> notifier \<Rightarrow> client \<Rightarrow> client" where
  "registerNotifier typeKey cb cl =
     (if (typeKey, cb) \<in> set (notifiers cl) then cl
      else cl\<lparr>notifiers := notifiers cl @ [(typeKey, cb)]\<rparr>)"

text \<open>
  \<open>new VLANsManager()\<close> on a connection \<open>c\<close>: the fields of the manager are set and the
  notifier is registered for \<open>"vlan"\<close>.
\<close>

definition new_VLANsManager :: "connection \<Rightarrow> client" where
  "new_VLANsManager c =
     registerNotifier ''vlan'' VlanOnNotify
       \<lparr>site = \<lparr>region = c, vlans = VLANsManager\<rparr>, notifiers = [], settledPromises = []\<rparr>"

text \<open>An object of the collection has the primary key \<open>v\<close>.\<close>

definition hasPk :: "manager \<Rightarrow> jsval \<Rightarrow> jsobj \<Rightarrow> bool" where
  "hasPk m v item = strictEq (fld item (pk m)) v"

text \<open>The primary keys of the cached collection, in its order.\<close>

definition pks :: "manager \<Rightarrow> jsval list" where
  "pks m = map (\<lambda>item. fld item (pk m)) (items m)"

fun replaceFirst :: "('a \<Rightarrow> bool) \<Rightarrow> 'a \<Rightarrow> 'a list \<Rightarrow> 'a list" where
  "replaceFirst P y [] = []"
| "replaceFirst P y (x # xs) = (if P x then y # xs else x # replaceFirst P y xs)"

fun removeFirst :: "('a \<Rightarrow> bool) \<Rightarrow> 'a list \<Rightarrow> 'a list" where
  "removeFirst P [] = []"
| "removeFirst P (x # xs) = (if P x then xs else x # removeFirst P xs)"

text \<open>
  Modelled from the spec: \<open>Manager.onNotify\<close> is not among the sources. Following section
  4.2: for \<open>create\<close>, the object is appended to the collection if its primary key is not
  already present; for \<open>update\<close>, the object with that primary key is found and its fields
  replaced in place, the active item too if it has the same primary key, and nothing
  happens if the key is not present; for \<open>delete\<close>, the object with that primary key is
  found and removed, and the active item is cleared if it was that object.
\<close>

fun onNotify :: "notification \<Rightarrow> manager \<Rightarrow> manager" where
  "onNotify (Created obj) m =
     (if find (hasPk m (fld obj (pk m))) (items m) = None
      then m\<lparr>items := items m @ [obj]\<rparr>
      else m)"
| "onNotify (Updated obj) m =
     m\<lparr>items := replaceFirst (hasPk m (fld obj (pk m))) obj (items m),
       activeItem :=
         (case activeItem m of
            None \<Rightarrow> None
          | Some a \<Rightarrow> if hasPk m (fld obj (pk m)) a then Some obj else Some a)\<rparr>"
| "onNotify (Deleted k) m =
     m\<lparr>items := removeFirst (hasPk m k) (items m),
       activeItem :=
         (case activeItem m of
            None \<Rightarrow> None
          | Some a \<Rightarrow> if hasPk m k a then None else Some a)\<rparr>"

text \<open>The notifier of the constructor: \<open>function(action, data) { self.onNotify(action, data); }\<close>.\<close>

fun notify :: "notification \<Rightarrow> client \<Rightarrow> notifier \<Rightarrow> client" where
  "notify n cl VlanOnNotify = cl\<lparr>site := (site cl)\<lparr>vlans := onNotify n (vlans (site cl))\<rparr>\<rparr>"

text \<open>
  Modelled from the spec: the dispatch of inbound frames by \<open>RegionConnection\<close> is not among
  the sources. Following sections 4.1 and 4.3, a response is correlated to a pending
  request id, settles that request's promise and removes the request from the pending
  table; a notification is forwarded to every callback registered for its type key, in
  registration order; any other frame, a response to no pending request included, is
  dropped.
\<close>

definition settle :: "nat \<Rightarrow> (jsval, jsval) outcome \<Rightarrow> client \<Rightarrow> client" where
  "settle rid result cl =
     (if rid \<in> fst ` set (pending (region (site cl))) then
        cl\<lparr>site := (site cl)\<lparr>region := (region (site cl))
                \<lparr>pending := filter (\<lambda>e. fst e \<noteq> rid) (pending (region (site cl)))\<rparr>\<rparr>,
           settledPromises := settledPromises cl @ [(rid, result)]\<rparr>
      else cl)"

fun receive :: "frame \<Rightarrow> client \<Rightarrow> client" where
  "receive (ResultFrame rid res) cl = settle rid (Resolved res) cl"
| "receive (ErrorFrame rid err) cl = settle rid (Rejected err) cl"
| "receive (NotifyFrame typeKey n) cl =
     foldl (notify n) cl (map snd (filter (\<lambda>e. fst e = typeKey) (notifiers cl)))"
| "receive UnknownFrame cl = cl"

text \<open>
  What happens to the client, one event after the other: a call of one of the manager's
  remote methods, or a frame received.
\<close>

datatype event =
    CallCreate jsobj
  | CallDeleteVLAN jsobj
  | CallConfigureDHCP jsobj jsval jsval
  | CallDisableDHCP jsobj
  | Receive frame

fun client_step :: "client \<Rightarrow> event \<Rightarrow> client" where
  "client_step cl (CallCreate vlan) = cl\<lparr>site := snd (create vlan (site cl))\<rparr>"
| "client_step cl (CallDeleteVLAN vlan) = cl\<lparr>site := snd (deleteVLAN vlan (site cl))\<rparr>"
| "client_step cl (CallConfigureDHCP vlan controllers extra) =
     cl\<lparr>site := snd (configureDHCP vlan controllers extra (site cl))\<rparr>"
| "client_step cl (CallDisableDHCP vlan) = cl\<lparr>site := snd (disableDHCP vlan (site cl))\<rparr>"
| "client_step cl (Receive f) = receive f cl"

definition client_run :: "client \<Rightarrow> event list \<Rightarrow> client" where
  "client_run cl evs = foldl client_step cl evs"

section \<open>Numbers returned by parseInt\<close>

text \<open>
  \<open>parseInt\<close> is the language's own function, not code of the repository, and the controller
  takes it as a parameter. What it returns is a number: NaN, an infinity, or an integer.
  A field value is never NaN nor infinite, so only an integer can be strictly equal to
  one.
\<close>

datatype jsnumber = NaN | Infinity | NegInfinity | Num int

fun isNaN :: "jsnumber \<Rightarrow> bool" where
  "isNaN NaN = True"
| "isNaN x = False"

fun strictEqNum :: "jsval \<Rightarrow> jsnumber \<Rightarrow> bool" where
  "strictEqNum (JNum i) (Num n) = (i = n)"
| "strictEqNum v x = False"

section \<open>SubnetDetailsController\<close>

datatype listener = UpdateFabric | UpdateIPVersion

text \<open>
  The state the controller writes: the fields of \<open>$scope\<close> it assigns, \<open>$rootScope.title\<close>
  and \<open>$rootScope.page\<close>, the watches registered on the scope, the path of \<open>$location\<close>, and
  the calls made to \<open>ErrorService.raiseError\<close>, \<open>SubnetsManager.setActiveItem\<close>,
  \<open>SubnetsManager.deleteSubnet\<close> and \<open>IPRangesManager.deleteItem\<close>. The sort predicate
  (type \<open>'p\<close>) and the IP range objects (type \<open>'r\<close>) are opaque to the controller: it only
  stores them and compares ranges by identity. \<open>None\<close> is \<open>null\<close>.
\<close>

record ('p, 'r) controller =
  title :: jsval
  page :: string
  loaded :: bool
  subnet :: "jsobj option"
  reverse :: bool
  predicate :: 'p
  newRange :: "jsobj option"
  editIPRange :: "'r option"
  deleteIPRange :: "'r option"
  error :: jsval
  confirmingDelete :: jsval
  watches :: "(string \<times> listener) list"
  path :: string
  raised :: "jsval list"
  setActiveItemCalls :: "jsnumber list"
  deleteSubnetCalls :: "jsobj option list"
  deleteItemCalls :: "'r option list"

text \<open>
  The controller's initial values. \<open>ipSort\<close> is the default predicate; \<open>path0\<close> is the
  path the browser is at. \<open>error\<close> and \<open>confirmingDelete\<close> are not assigned yet.
\<close>

definition init :: "'p \<Rightarrow> string \<Rightarrow> ('p, 'r) controller" where
  "init ipSort path0 =
     \<lparr>title = JStr ''Loading...'',
      page = ''networks'',
      loaded = False,
      subnet = None,
      reverse = False,
      predicate = ipSort,
      newRange = None,
      editIPRange = None,
      deleteIPRange = None,
      error = JUndefined,
      confirmingDelete = JUndefined,
      watches = [],
      path = path0,
      raised = [],
      setActiveItemCalls = [],
      deleteSubnetCalls = [],
      deleteItemCalls = []\<rparr>"

text \<open>The keys of an object literal written as numbers are the strings of those numbers.\<close>

definition ALLOC_TYPES :: jsobj where
  "ALLOC_TYPES =
     [(''0'', JStr ''Automatic''),
      (''1'', JStr ''Static''),
      (''4'', JStr ''User reserved''),
      (''5'', JStr ''DHCP''),
      (''6'', JStr ''Observed'')]"

definition NODE_TYPES :: jsobj where
  "NODE_TYPES =
     [(''0'', JStr ''Machine''),
      (''1'', JStr ''Device''),
      (''2'', JStr ''Rack controller''),
      (''3'', JStr ''Region controller''),
      (''4'', JStr ''Rack and region controller'')]"

definition updateTitle :: "('p, 'r) controller \<Rightarrow> ('p, 'r) controller" where
  "updateTitle st =
     (case subnet st of
        None \<Rightarrow> st
      | Some s \<Rightarrow>
          if truthy (fld s ''cidr'') then
            (if truthy (fld s ''name'') \<and> \<not> strictEq (fld s ''cidr'') (fld s ''name'')
             then st\<lparr>title := JStr (toStr (fld s ''cidr'') @ ('' ('' @ toStr (fld s ''name'') @ '')''))\<rparr>
             else st\<lparr>title := fld s ''cidr''\<rparr>)
          else st)"

text \<open>\<open>ALLOC_TYPES[allocType]\<close> looks up the string of \<open>allocType\<close>.\<close>

definition getAllocType :: "jsval \<Rightarrow> jsval" where
  "getAllocType allocType =
     (let str = fld ALLOC_TYPES (toStr allocType) in
      if isString str then str else JStr ''Unknown'')"

definition getNodeType :: "jsval \<Rightarrow> jsval" where
  "getNodeType nodeType =
     (let str = fld NODE_TYPES (toStr nodeType) in
      if isString str then str else JStr ''Unknown'')"

definition sortIPTable :: "'p \<Rightarrow> ('p, 'r) controller \<Rightarrow> ('p, 'r) controller" where
  "sortIPTable p st = st\<lparr>predicate := p, reverse := \<not> reverse st\<rparr>"

definition deleteButton :: "('p, 'r) controller \<Rightarrow> ('p, 'r) controller" where
  "deleteButton st = st\<lparr>error := JNull, confirmingDelete := JBool True\<rparr>"

definition cancelDeleteButton :: "('p, 'r) controller \<Rightarrow> ('p, 'r) controller" where
  "cancelDeleteButton st = st\<lparr>confirmingDelete := JBool False\<rparr>"

text \<open>
  \<open>SubnetsManager.deleteSubnet\<close> and \<open>ManagerHelperService.parseValidationError\<close> are not
  among the sources: the call is recorded, the way its promise settles is the argument
  \<open>settled\<close>, and \<open>parseValidationError\<close> is a parameter. A promise runs at most one of the
  two callbacks of \<open>then\<close>, and none while it is pending.
\<close>

definition deleteConfirmButton ::
  "(jsval \<Rightarrow> jsval) \<Rightarrow> (unit, jsval) outcome \<Rightarrow> ('p, 'r) controller \<Rightarrow> ('p, 'r) controller" where
  "deleteConfirmButton parseValidationError settled st =
     (let st1 = st\<lparr>deleteSubnetCalls := deleteSubnetCalls st @ [subnet st]\<rparr> in
      case settled of
        Pending \<Rightarrow> st1
      | Resolved u \<Rightarrow> st1\<lparr>confirmingDelete := JBool False, path := ''/networks''\<rparr>
      | Rejected err \<Rightarrow> st1\<lparr>error := parseValidationError err\<rparr>)"

text \<open>
  \<open>changedFields.indexOf("fabric") !== -1\<close> holds when \<open>"fabric"\<close> is among the changed
  fields. Reading \<open>default_vlan_id\<close> of an absent fabric throws a TypeError.
\<close>

definition subnetPreSave :: "jsobj list \<Rightarrow> jsobj \<Rightarrow> string list \<Rightarrow> jserror + jsobj" where
  "subnetPreSave fabricItems sn changedFields =
     (if ''fabric'' \<in> set changedFields then
        (case getItemFromList fabricItems (fld sn ''fabric'') of
           None \<Rightarrow> Inl TypeError
         | Some fabric \<Rightarrow> Inr (put sn ''vlan'' (fld fabric ''default_vlan_id'')))
      else Inr sn)"

text \<open>\<open>$scope.subnet.id\<close> throws a TypeError while the subnet is \<open>null\<close>.\<close>

definition addRange :: "jsval \<Rightarrow> ('p, 'r) controller \<Rightarrow> jserror + ('p, 'r) controller" where
  "addRange type st =
     (case subnet st of
        None \<Rightarrow> Inl TypeError
      | Some s \<Rightarrow>
          (let r = [(''type'', type),
                    (''subnet'', fld s ''id''),
                    (''start_ip'', JStr []),
                    (''end_ip'', JStr []),
                    (''comment'', JStr [])]
           in Inr (st\<lparr>newRange :=
                     Some (if strictEq type (JStr ''dynamic'')
                           then put r ''comment'' (JStr ''Dynamic'') else r)\<rparr>)))"

definition cancelAddRange :: "('p, 'r) controller \<Rightarrow> ('p, 'r) controller" where
  "cancelAddRange st = st\<lparr>newRange := None\<rparr>"

definition isIPRangeInEditMode :: "'r option \<Rightarrow> ('p, 'r) controller \<Rightarrow> bool" where
  "isIPRangeInEditMode rng st = (editIPRange st = rng)"

definition ipRangeToggleEditMode :: "'r option \<Rightarrow> ('p, 'r) controller \<Rightarrow> ('p, 'r) controller" where
  "ipRangeToggleEditMode rng st =
     (let st1 = st\<lparr>deleteIPRange := None\<rparr> in
      if isIPRangeInEditMode rng st1 then st1\<lparr>editIPRange := None\<rparr>
      else st1\<lparr>editIPRange := rng\<rparr>)"

definition isIPRangeInDeleteMode :: "'r option \<Rightarrow> ('p, 'r) controller \<Rightarrow> bool" where
  "isIPRangeInDeleteMode rng st = (deleteIPRange st = rng)"

definition ipRangeEnterDeleteMode :: "'r option \<Rightarrow> ('p, 'r) controller \<Rightarrow> ('p, 'r) controller" where
  "ipRangeEnterDeleteMode rng st = st\<lparr>editIPRange := None, deleteIPRange := rng\<rparr>"

definition ipRangeCancelDelete :: "('p, 'r) controller \<Rightarrow> ('p, 'r) controller" where
  "ipRangeCancelDelete st = st\<lparr>deleteIPRange := None\<rparr>"

text \<open>
  \<open>IPRangesManager.deleteItem\<close> is not among the sources: the call is recorded and the way
  its promise settles is the argument. The success callback first clears the delete mode
  and then reloads the subnet with \<open>SubnetsManager.getItem\<close>; a TypeError thrown by
  \<open>$scope.subnet.id\<close> leaves the first assignment done, so the state is returned beside it.
\<close>

definition ipRangeConfirmDelete ::
  "jsobj list \<Rightarrow> (unit, jsval) outcome \<Rightarrow> ('p, 'r) controller
     \<Rightarrow> jserror option \<times> ('p, 'r) controller" where
  "ipRangeConfirmDelete subnetItems settled st =
     (let st1 = st\<lparr>deleteItemCalls := deleteItemCalls st @ [deleteIPRange st]\<rparr> in
      case settled of
        Resolved u \<Rightarrow>
          (let st2 = st1\<lparr>deleteIPRange := None\<rparr> in
           case subnet st2 of
             None \<Rightarrow> (Some TypeError, st2)
           | Some s \<Rightarrow> (None, st2\<lparr>subnet := getItemFromList subnetItems (fld s ''id'')\<rparr>))
      | _ \<Rightarrow> (None, st1))"

text \<open>
  The listener \<open>updateFabric\<close> of \<open>subnetLoaded\<close>. Reading \<open>fabric\<close> of an absent VLAN, or
  \<open>vlan\<close> of a \<open>null\<close> subnet, throws a TypeError before anything is assigned.
\<close>

definition updateFabric :: "jsobj list \<Rightarrow> ('p, 'r) controller \<Rightarrow> jserror + ('p, 'r) controller" where
  "updateFabric vlanItems st =
     (case subnet st of
        None \<Rightarrow> Inl TypeError
      | Some s \<Rightarrow>
          (case getItemFromList vlanItems (fld s ''vlan'') of
             None \<Rightarrow> Inl TypeError
           | Some vlan \<Rightarrow> Inr (st\<lparr>subnet := Some (put s ''fabric'' (fld vlan ''fabric''))\<rparr>)))"

definition subnetLoaded :: "jsobj option \<Rightarrow> ('p, 'r) controller \<Rightarrow> ('p, 'r) controller" where
  "subnetLoaded sn st =
     (let st1 = updateTitle (st\<lparr>subnet := sn, loaded := True\<rparr>) in
      st1\<lparr>watches := watches st1 @
             [(''subnet.fabric'', UpdateFabric),
              (''subnet.vlan'', UpdateFabric),
              (''subnet.cidr'', UpdateIPVersion)]\<rparr>)"

definition raiseError :: "jsval \<Rightarrow> ('p, 'r) controller \<Rightarrow> ('p, 'r) controller" where
  "raiseError e st = st\<lparr>raised := raised st @ [e]\<rparr>"

text \<open>
  The callback run once \<open>loadManagers\<close> has resolved. \<open>activeSubnet\<close> is what
  \<open>SubnetsManager.getActiveItem()\<close> returns, an object or \<open>null\<close>, so \<open>angular.isObject\<close>
  holds of it exactly when it is \<open>Some\<close>; \<open>subnet_id\<close> is the route parameter and
  \<open>parseInt\<close> stands for \<open>parseInt(_, 10)\<close>. \<open>SubnetsManager.setActiveItem\<close> is not among the
  sources: the call is recorded, and \<open>setActiveItemSettled\<close> is what the two callbacks
  given to its promise do.
\<close>

definition managersLoaded ::
  "(string \<Rightarrow> jsnumber) \<Rightarrow> jsobj option \<Rightarrow> string \<Rightarrow> ('p, 'r) controller
     \<Rightarrow> ('p, 'r) controller" where
  "managersLoaded parseInt activeSubnet subnet_id st =
     (let requestedSubnet = parseInt subnet_id in
      if isNaN requestedSubnet then raiseError (JStr ''Invalid subnet identifier.'') st
      else
        (case activeSubnet of
           Some a \<Rightarrow>
             if strictEqNum (fld a ''id'') requestedSubnet
             then subnetLoaded activeSubnet st
             else st\<lparr>setActiveItemCalls := setActiveItemCalls st @ [requestedSubnet]\<rparr>
         | None \<Rightarrow> st\<lparr>setActiveItemCalls := setActiveItemCalls st @ [requestedSubnet]\<rparr>))"

definition setActiveItemSettled ::
  "(jsobj option, jsval) outcome \<Rightarrow> ('p, 'r) controller \<Rightarrow> ('p, 'r) controller" where
  "setActiveItemSettled settled st =
     (case settled of
        Pending \<Rightarrow> st
      | Resolved sn \<Rightarrow> subnetLoaded sn st
      | Rejected err \<Rightarrow> raiseError err st)"

text \<open>
  The operations on the IP range modes, as the page triggers them one after the other.
\<close>

datatype 'r mode_op =
    ToggleEditMode "'r option"
  | EnterDeleteMode "'r option"
  | CancelDelete
  | ConfirmDelete "jsobj list" "(unit, jsval) outcome"

fun mode_step :: "('p, 'r) controller \<Rightarrow> 'r mode_op \<Rightarrow> ('p, 'r) controller" where
  "mode_step st (ToggleEditMode rng) = ipRangeToggleEditMode rng st"
| "mode_step st (EnterDeleteMode rng) = ipRangeEnterDeleteMode rng st"
| "mode_step st CancelDelete = ipRangeCancelDelete st"
| "mode_step st (ConfirmDelete subnetItems settled) = snd (ipRangeConfirmDelete subnetItems settled st)"

definition mode_run :: "('p, 'r) controller \<Rightarrow> 'r mode_op list \<Rightarrow> ('p, 'r) controller" where
  "mode_run st ops = foldl mode_step st ops"

text \<open>At most one of \<open>$scope.editIPRange\<close> and \<open>$scope.deleteIPRange\<close> is not \<open>null\<close>.\<close>

definition one_mode :: "('p, 'r) controller \<Rightarrow> bool" where
  "one_mode st = (editIPRange st = None \<or> deleteIPRange st = None)"

section \<open>Facts about the modelled library functions\<close>

lemma callMethod_promise: "fst (callMethod m p s c) = RpcPromise (lastId c + 1)"
  by (simp add: callMethod_def Let_def)

lemma callMethod_sent:
  "sentData (snd (callMethod m p s c)) =
     sentData c @ [\<lparr>requestId = lastId c + 1, methodName = m, params = p\<rparr>]"
  by (simp add: callMethod_def Let_def)

lemma nat_str_small: "n < 10 \<Longrightarrow> nat_str n = [''0123456789'' ! n]"
  by (subst nat_str.simps) simp

lemma nat_str_nonempty: "nat_str n \<noteq> []"
  by (subst nat_str.simps) simp

lemma nat_str_large: "10 \<le> n \<Longrightarrow> length (nat_str n) \<ge> 2"
proof -
  assume "10 \<le> n"
  then have "nat_str n = nat_str (n div 10) @ [''0123456789'' ! (n mod 10)]"
    by (subst nat_str.simps) simp
  moreover have "length (nat_str (n div 10)) \<ge> 1"
    using nat_str_nonempty [of "n div 10"] by (cases "nat_str (n div 10)") simp_all
  ultimately show ?thesis by simp
qed

lemma digit_nth_inj:
  "i < 10 \<Longrightarrow> j < 10 \<Longrightarrow> ''0123456789'' ! i = ''0123456789'' ! j \<Longrightarrow> i = (j::nat)"
proof -
  assume "i < 10" "j < 10" and eq: "''0123456789'' ! i = ''0123456789'' ! j"
  have "distinct ''0123456789''" by simp
  moreover have "i < length ''0123456789''" "j < length ''0123456789''"
    using \<open>i < 10\<close> \<open>j < 10\<close> by simp_all
  ultimately show "i = j" using eq by (simp only: nth_eq_iff_index_eq)
qed

lemma nat_str_digit: "d < 10 \<Longrightarrow> nat_str n = [''0123456789'' ! d] \<Longrightarrow> n = d"
proof -
  assume d: "d < 10" and eq: "nat_str n = [''0123456789'' ! d]"
  show "n = d"
  proof (cases "n < 10")
    case True
    with eq have "''0123456789'' ! n = ''0123456789'' ! d" by (simp add: nat_str_small)
    with True d show ?thesis by (rule digit_nth_inj)
  next
    case False
    then have "length (nat_str n) \<ge> 2" using nat_str_large [of n] by simp
    with eq show ?thesis by simp
  qed
qed

lemma int_str_digit:
  assumes "d < 10" and "int_str i = [''0123456789'' ! d]"
  shows "i = int d"
proof (cases "i < 0")
  case True
  with assms(2) have "CHR ''-'' = ''0123456789'' ! d" by (simp add: int_str_def)
  moreover have "CHR ''-'' \<notin> set ''0123456789''" by simp
  moreover have "''0123456789'' ! d \<in> set ''0123456789''"
    using assms(1) by (intro nth_mem) simp
  ultimately show ?thesis by metis
next
  case False
  with assms(2) have "nat_str (nat i) = [''0123456789'' ! d]" by (simp add: int_str_def)
  with assms(1) have "nat i = d" by (rule nat_str_digit)
  with False show ?thesis by simp
qed

lemma int_str_eq_digit_iff:
  "d < 10 \<Longrightarrow> int_str i = [''0123456789'' ! d] \<longleftrightarrow> i = int d"
  using int_str_digit [of d i] by (auto simp: int_str_def nat_str_small)

lemma int_str_0: "int_str i = ''0'' \<longleftrightarrow> i = 0"
  using int_str_eq_digit_iff [of 0 i] by simp

lemma int_str_1: "int_str i = ''1'' \<longleftrightarrow> i = 1"
  using int_str_eq_digit_iff [of 1 i] by simp

lemma int_str_2: "int_str i = ''2'' \<longleftrightarrow> i = 2"
  using int_str_eq_digit_iff [of 2 i] by simp

lemma int_str_3: "int_str i = ''3'' \<longleftrightarrow> i = 3"
  using int_str_eq_digit_iff [of 3 i] by simp

lemma int_str_4: "int_str i = ''4'' \<longleftrightarrow> i = 4"
  using int_str_eq_digit_iff [of 4 i] by simp

lemma int_str_5: "int_str i = ''5'' \<longleftrightarrow> i = 5"
  using int_str_eq_digit_iff [of 5 i] by simp

lemma int_str_6: "int_str i = ''6'' \<longleftrightarrow> i = 6"
  using int_str_eq_digit_iff [of 6 i] by simp

lemmas int_str_digits = int_str_0 int_str_1 int_str_2 int_str_3 int_str_4 int_str_5 int_str_6

lemma subnetLoaded_calls: "setActiveItemCalls (subnetLoaded sn st) = setActiveItemCalls st"
  by (simp add: subnetLoaded_def updateTitle_def Let_def split: option.splits)

lemma mode_step_one_mode: "one_mode st \<Longrightarrow> one_mode (mode_step st x)"
  by (cases x)
     (simp_all add: one_mode_def ipRangeToggleEditMode_def ipRangeEnterDeleteMode_def
        ipRangeCancelDelete_def ipRangeConfirmDelete_def isIPRangeInEditMode_def Let_def
        split: outcome.splits option.splits)

lemma mode_run_one_mode: "one_mode st \<Longrightarrow> one_mode (mode_run st ops)"
  unfolding mode_run_def
proof (induction ops arbitrary: st)
  case Nil
  then show ?case by simp
next
  case (Cons x xs)
  from Cons.prems have "one_mode (mode_step st x)" by (rule mode_step_one_mode)
  then show ?case using Cons.IH by simp
qed

section \<open>Facts about the frames and the notifications\<close>

lemma settle_vlans: "vlans (site (settle rid result cl)) = vlans (site cl)"
  by (simp add: settle_def)

lemma settle_notifiers: "notifiers (settle rid result cl) = notifiers cl"
  by (simp add: settle_def)

lemma receive_notify_vlan:
  assumes "notifiers cl = [(''vlan'', VlanOnNotify)]"
  shows "receive (NotifyFrame typeKey n) cl =
           (if typeKey = ''vlan''
            then cl\<lparr>site := (site cl)\<lparr>vlans := onNotify n (vlans (site cl))\<rparr>\<rparr>
            else cl)"
  using assms by simp

lemma receive_notifiers:
  assumes "notifiers cl = [(''vlan'', VlanOnNotify)]"
  shows "notifiers (receive f cl) = [(''vlan'', VlanOnNotify)]"
proof (cases f)
  case (NotifyFrame typeKey n)
  then show ?thesis using assms by (simp add: receive_notify_vlan)
qed (simp_all add: settle_notifiers assms)

lemma client_step_notifiers:
  assumes "notifiers cl = [(''vlan'', VlanOnNotify)]"
  shows "notifiers (client_step cl e) = [(''vlan'', VlanOnNotify)]"
proof (cases e)
  case (Receive f)
  then show ?thesis using assms by (simp add: receive_notifiers)
qed (simp_all add: assms)

lemma client_run_notifiers:
  "notifiers cl = [(''vlan'', VlanOnNotify)] \<Longrightarrow>
   notifiers (client_run cl evs) = [(''vlan'', VlanOnNotify)]"
  unfolding client_run_def
proof (induction evs arbitrary: cl)
  case Nil
  then show ?case by simp
next
  case (Cons e evs)
  from Cons.prems have "notifiers (client_step cl e) = [(''vlan'', VlanOnNotify)]"
    by (rule client_step_notifiers)
  then show ?case using Cons.IH by simp
qed

lemma new_VLANsManager_notifiers: "notifiers (new_VLANsManager c) = [(''vlan'', VlanOnNotify)]"
  by (simp add: new_VLANsManager_def registerNotifier_def)

lemma new_VLANsManager_items: "items (vlans (site (new_VLANsManager c))) = []"
  by (simp add: new_VLANsManager_def registerNotifier_def VLANsManager_def)

lemma call_vlans:
  "vlans (snd (create vlan w)) = vlans w"
  "vlans (snd (deleteVLAN vlan w)) = vlans w"
  "vlans (snd (configureDHCP vlan controllers extra w)) = vlans w"
  "vlans (snd (disableDHCP vlan w)) = vlans w"
  by (simp_all add: create_def deleteVLAN_def configureDHCP_def disableDHCP_def split_beta)

lemma find_hasPk_None: "find (hasPk m v) (items m) = None \<longleftrightarrow> v \<notin> set (pks m)"
  by (auto simp: find_None_iff hasPk_def strictEq_def pks_def)

lemma map_replaceFirst:
  "f y = v \<Longrightarrow> map f (replaceFirst (\<lambda>x. f x = v) y xs) = map f xs"
  by (induction xs) simp_all

lemma map_removeFirst: "map f (removeFirst (\<lambda>x. f x = v) xs) = remove1 v (map f xs)"
  by (induction xs) auto

lemma length_replaceFirst: "length (replaceFirst P y xs) = length xs"
  by (induction xs) simp_all

lemma length_removeFirst: "length (removeFirst P xs) \<le> length xs"
  by (induction xs) auto

lemma hasPk_eq: "hasPk m v = (\<lambda>item. fld item (pk m) = v)"
  by (rule ext) (simp add: hasPk_def strictEq_def)

lemma pks_Created:
  "pks (onNotify (Created obj) m) =
     (if fld obj (pk m) \<in> set (pks m) then pks m else pks m @ [fld obj (pk m)])"
  by (simp add: find_hasPk_None) (simp add: pks_def)

lemma pks_Updated: "pks (onNotify (Updated obj) m) = pks m"
  by (simp add: pks_def hasPk_eq map_replaceFirst)

lemma pks_Deleted: "pks (onNotify (Deleted k) m) = remove1 k (pks m)"
  by (simp add: pks_def hasPk_eq map_removeFirst)

lemma length_Created: "length (items m) \<le> length (items (onNotify (Created obj) m))"
  by simp

lemma length_Updated: "length (items (onNotify (Updated obj) m)) = length (items m)"
  by (simp add: length_replaceFirst)

lemma length_Deleted: "length (items (onNotify (Deleted k) m)) \<le> length (items m)"
  by (simp add: length_removeFirst)

lemma onNotify_distinct: "distinct (pks m) \<Longrightarrow> distinct (pks (onNotify n m))"
  by (cases n) (simp_all add: pks_Created pks_Updated pks_Deleted del: onNotify.simps)

lemma client_step_distinct:
  assumes "notifiers cl = [(''vlan'', VlanOnNotify)]" and "distinct (pks (vlans (site cl)))"
  shows "distinct (pks (vlans (site (client_step cl e))))"
proof (cases e)
  case (Receive f)
  show ?thesis
  proof (cases f)
    case (NotifyFrame typeKey n)
    with Receive assms show ?thesis
      by (simp add: receive_notify_vlan onNotify_distinct)
  qed (simp_all add: Receive settle_vlans assms)
qed (simp_all add: call_vlans assms)

lemma client_run_distinct:
  "notifiers cl = [(''vlan'', VlanOnNotify)] \<Longrightarrow> distinct (pks (vlans (site cl))) \<Longrightarrow>
   distinct (pks (vlans (site (client_run cl evs))))"
  unfolding client_run_def
proof (induction evs arbitrary: cl)
  case Nil
  then show ?case by simp
next
  case (Cons e evs)
  have n: "notifiers (client_step cl e) = [(''vlan'', VlanOnNotify)]"
    using Cons.prems(1) by (rule client_step_notifiers)
  have d: "distinct (pks (vlans (site (client_step cl e))))"
    using Cons.prems by (rule client_step_distinct)
  from n d show ?case using Cons.IH by simp
qed

lemma no_insert_without_Created:
  assumes "notifiers cl = [(''vlan'', VlanOnNotify)]"
    and "\<forall>obj. e \<noteq> Receive (NotifyFrame ''vlan'' (Created obj))"
  shows "set (pks (vlans (site (client_step cl e)))) \<subseteq> set (pks (vlans (site cl))) \<and>
         length (items (vlans (site (client_step cl e)))) \<le> length (items (vlans (site cl)))"
proof (cases e)
  case (Receive f)
  show ?thesis
  proof (cases f)
    case (NotifyFrame typeKey n)
    show ?thesis
    proof (cases "typeKey = ''vlan''")
      case True
      with assms(2) Receive NotifyFrame have nc: "\<forall>obj. n \<noteq> Created obj" by simp
      have st: "vlans (site (client_step cl e)) = onNotify n (vlans (site cl))"
        using Receive NotifyFrame True assms(1) by (simp add: receive_notify_vlan)
      show ?thesis
      proof (cases n)
        case (Created obj)
        with nc show ?thesis by simp
      next
        case (Updated obj)
        then show ?thesis by (simp add: st pks_Updated length_Updated del: onNotify.simps)
      next
        case (Deleted k)
        have "set (remove1 k (pks (vlans (site cl)))) \<subseteq> set (pks (vlans (site cl)))"
          by (rule set_remove1_subset)
        then show ?thesis using Deleted
          by (simp add: st pks_Deleted length_Deleted del: onNotify.simps)
      qed
    next
      case False
      then show ?thesis using Receive NotifyFrame assms(1) by (simp add: receive_notify_vlan)
    qed
  qed (simp_all add: Receive settle_vlans)
qed (simp_all add: call_vlans)

lemma no_removal_without_Deleted:
  assumes "notifiers cl = [(''vlan'', VlanOnNotify)]"
    and "\<forall>k. e \<noteq> Receive (NotifyFrame ''vlan'' (Deleted k))"
  shows "set (pks (vlans (site cl))) \<subseteq> set (pks (vlans (site (client_step cl e)))) \<and>
         length (items (vlans (site cl))) \<le> length (items (vlans (site (client_step cl e))))"
proof (cases e)
  case (Receive f)
  show ?thesis
  proof (cases f)
    case (NotifyFrame typeKey n)
    show ?thesis
    proof (cases "typeKey = ''vlan''")
      case True
      with assms(2) Receive NotifyFrame have nd: "\<forall>k. n \<noteq> Deleted k" by simp
      have st: "vlans (site (client_step cl e)) = onNotify n (vlans (site cl))"
        using Receive NotifyFrame True assms(1) by (simp add: receive_notify_vlan)
      show ?thesis
      proof (cases n)
        case (Created obj)
        then show ?thesis
          by (auto simp add: st pks_Created length_Created simp del: onNotify.simps)
      next
        case (Updated obj)
        then show ?thesis by (simp add: st pks_Updated length_Updated del: onNotify.simps)
      next
        case (Deleted k)
        with nd show ?thesis by simp
      qed
    next
      case False
      then show ?thesis using Receive NotifyFrame assms(1) by (simp add: receive_notify_vlan)
    qed
  qed (simp_all add: Receive settle_vlans)
qed (simp_all add: call_vlans)

lemma subnetLoaded_fields:
  "subnet (subnetLoaded sn st) = sn"
  "loaded (subnetLoaded sn st)"
  "raised (subnetLoaded sn st) = raised st"
  "watches (subnetLoaded sn st) =
     watches st @ [(''subnet.fabric'', UpdateFabric), (''subnet.vlan'', UpdateFabric),
                   (''subnet.cidr'', UpdateIPVersion)]"
  "title (subnetLoaded sn st) = title (updateTitle (st\<lparr>subnet := sn, loaded := True\<rparr>))"
  by (simp_all add: subnetLoaded_def updateTitle_def Let_def split: option.splits)

section \<open>VLANsManager: the remote calls\<close>

text \<open>
  C1. For every vlan object, \<open>create\<close> returns the promise of \<open>callMethod\<close> itself, with no
  callback chained to it; the one request it sends has method \<open>vlan.create\<close> and the vlan as
  params; and the manager, with its cached collection, is the same after the call. The
  response to that request settles the promise and leaves the manager as it is, as every
  response frame does. On a client built by the constructor, at every moment, only the
  notifier of the constructor is registered; there, a \<open>create\<close> notification for \<open>"vlan"\<close>
  whose primary key is not cached appends its object to the collection, and every other
  event (a call of a remote method, a response, any other notification) adds no primary
  key to the collection and does not make it longer.
\<close>

theorem create_leaves_insertion_to_notification:
  "fst (create vlan w) = fst (callMethod ''vlan.create'' vlan False (region w)) \<and>
   fst (create vlan w) = RpcPromise (lastId (region w) + 1) \<and>
   sentData (region (snd (create vlan w))) =
     sentData (region w) @
       [\<lparr>requestId = lastId (region w) + 1, methodName = ''vlan.create'', params = vlan\<rparr>] \<and>
   vlans (snd (create vlan w)) = vlans w \<and>
   items (vlans (snd (create vlan w))) = items (vlans w) \<and>
   settledPromises
     (receive (ResultFrame (lastId (region (site cl)) + 1) res) (client_step cl (CallCreate vlan))) =
     settledPromises cl @ [(lastId (region (site cl)) + 1, Resolved res)] \<and>
   vlans (site
     (receive (ResultFrame (lastId (region (site cl)) + 1) res) (client_step cl (CallCreate vlan)))) =
     vlans (site cl) \<and>
   vlans (site (receive (ResultFrame rid res) cl)) = vlans (site cl) \<and>
   vlans (site (receive (ErrorFrame rid err) cl)) = vlans (site cl) \<and>
   notifiers (client_run (new_VLANsManager c) evs) = [(''vlan'', VlanOnNotify)] \<and>
   (notifiers cl = [(''vlan'', VlanOnNotify)] \<and>
    fld obj (pk (vlans (site cl))) \<notin> set (pks (vlans (site cl))) \<longrightarrow>
      items (vlans (site (receive (NotifyFrame ''vlan'' (Created obj)) cl))) =
        items (vlans (site cl)) @ [obj]) \<and>
   (notifiers cl = [(''vlan'', VlanOnNotify)] \<and>
    (\<forall>x. e \<noteq> Receive (NotifyFrame ''vlan'' (Created x))) \<longrightarrow>
      set (pks (vlans (site (client_step cl e)))) \<subseteq> set (pks (vlans (site cl))) \<and>
      length (items (vlans (site (client_step cl e)))) \<le> length (items (vlans (site cl))))"
proof -
  have call:
    "fst (create vlan w) = fst (callMethod ''vlan.create'' vlan False (region w)) \<and>
     fst (create vlan w) = RpcPromise (lastId (region w) + 1) \<and>
     sentData (region (snd (create vlan w))) =
       sentData (region w) @
         [\<lparr>requestId = lastId (region w) + 1, methodName = ''vlan.create'', params = vlan\<rparr>] \<and>
     vlans (snd (create vlan w)) = vlans w \<and>
     items (vlans (snd (create vlan w))) = items (vlans w)"
    by (simp add: create_def split_beta callMethod_promise callMethod_sent)
  have own1:
    "settledPromises
       (receive (ResultFrame (lastId (region (site cl)) + 1) res)
          (client_step cl (CallCreate vlan))) =
       settledPromises cl @ [(lastId (region (site cl)) + 1, Resolved res)]"
    by (simp add: settle_def create_def callMethod_def Let_def)
  have own2:
    "vlans (site
       (receive (ResultFrame (lastId (region (site cl)) + 1) res)
          (client_step cl (CallCreate vlan)))) = vlans (site cl)"
    by (simp add: settle_vlans call_vlans)
  have resp: "vlans (site (receive (ResultFrame rid res) cl)) = vlans (site cl)"
    "vlans (site (receive (ErrorFrame rid err) cl)) = vlans (site cl)"
    by (simp_all add: settle_vlans)
  have reg: "notifiers (client_run (new_VLANsManager c) evs) = [(''vlan'', VlanOnNotify)]"
    using new_VLANsManager_notifiers by (rule client_run_notifiers)
  have ins: "items (vlans (site (receive (NotifyFrame ''vlan'' (Created obj)) cl))) =
      items (vlans (site cl)) @ [obj]"
    if "notifiers cl = [(''vlan'', VlanOnNotify)]"
      and "fld obj (pk (vlans (site cl))) \<notin> set (pks (vlans (site cl)))"
    using that by (simp add: receive_notify_vlan find_hasPk_None)
  have only:
    "set (pks (vlans (site (client_step cl e)))) \<subseteq> set (pks (vlans (site cl))) \<and>
     length (items (vlans (site (client_step cl e)))) \<le> length (items (vlans (site cl)))"
    if "notifiers cl = [(''vlan'', VlanOnNotify)]"
      and "\<forall>x. e \<noteq> Receive (NotifyFrame ''vlan'' (Created x))"
    using that by (rule no_insert_without_Created)
  from call own1 own2 resp reg ins only show ?thesis by blast
qed

text \<open>
  C1 on a fresh connection: the manager is constructed and \<open>create\<close> is called for the vlan
  \<open>{vid: 10}\<close>. The response to request 1, carrying the created object \<open>{id: 3, vid: 10}\<close>,
  leaves the collection empty; the \<open>create\<close> notification with that object makes the
  collection hold exactly it.
\<close>

theorem create_leaves_insertion_to_notification_witness:
  "notifiers (client_step (new_VLANsManager \<lparr>lastId = 0, pending = [], sentData = []\<rparr>)
      (CallCreate [(''vid'', JNum 10)])) = [(''vlan'', VlanOnNotify)] \<and>
   items (vlans (site (client_step
      (client_step (new_VLANsManager \<lparr>lastId = 0, pending = [], sentData = []\<rparr>)
         (CallCreate [(''vid'', JNum 10)]))
      (Receive (ResultFrame 1 (JObj [(''id'', JNum 3), (''vid'', JNum 10)])))))) = [] \<and>
   items (vlans (site (receive (NotifyFrame ''vlan'' (Created [(''id'', JNum 3), (''vid'', JNum 10)]))
      (client_step (new_VLANsManager \<lparr>lastId = 0, pending = [], sentData = []\<rparr>)
         (CallCreate [(''vid'', JNum 10)]))))) = [[(''id'', JNum 3), (''vid'', JNum 10)]]"
  using create_leaves_insertion_to_notification
          [where cl = "client_step (new_VLANsManager \<lparr>lastId = 0, pending = [], sentData = []\<rparr>)
                         (CallCreate [(''vid'', JNum 10)])"
             and obj = "[(''id'', JNum 3), (''vid'', JNum 10)]"
             and e = "Receive (ResultFrame 1 (JObj [(''id'', JNum 3), (''vid'', JNum 10)]))"]
  by (simp add: new_VLANsManager_def registerNotifier_def VLANsManager_def pks_def
        create_def callMethod_def Let_def)

text \<open>
  C2, as claimed, fails for \<open>disableDHCP\<close>: the params of the request it sends for the vlan
  \<open>{id: 7}\<close> on a fresh connection have the keys \<open>id\<close> and \<open>controllers\<close> only, not
  \<open>id\<close>, \<open>controllers\<close> and \<open>extra\<close>.
\<close>

theorem disableDHCP_has_no_extra:
  "fst ` set (params (last (sentData (region (snd (disableDHCP [(''id'', JNum 7)]
      \<lparr>region = \<lparr>lastId = 0, pending = [], sentData = []\<rparr>,
       vlans = VLANsManager\<rparr>)))))) \<noteq> {''id'', ''controllers'', ''extra''}"
proof
  assume "fst ` set (params (last (sentData (region (snd (disableDHCP [(''id'', JNum 7)]
      \<lparr>region = \<lparr>lastId = 0, pending = [], sentData = []\<rparr>,
       vlans = VLANsManager\<rparr>)))))) = {''id'', ''controllers'', ''extra''}"
  then have "''extra'' \<in> fst ` set (params (last (sentData (region (snd (disableDHCP
      [(''id'', JNum 7)]
      \<lparr>region = \<lparr>lastId = 0, pending = [], sentData = []\<rparr>,
       vlans = VLANsManager\<rparr>))))))"
    by simp
  then show False
    by (simp add: disableDHCP_def split_beta callMethod_sent)
qed

text \<open>
  C2, amended. \<open>configureDHCP(vlan, controllers, extra)\<close> sends one request with method
  \<open>vlan.configure_dhcp\<close> whose params have exactly the keys \<open>id\<close>, \<open>controllers\<close> and \<open>extra\<close>,
  bound to \<open>vlan.id\<close> and the two arguments; \<open>disableDHCP(vlan)\<close> sends one request with the
  same method whose params have exactly the keys \<open>id\<close> and \<open>controllers\<close>, bound to
  \<open>vlan.id\<close> and the empty list.
\<close>

theorem configure_dhcp_params:
  "sentData (region (snd (configureDHCP vlan controllers extra w))) =
     sentData (region w) @
       [\<lparr>requestId = lastId (region w) + 1, methodName = ''vlan.configure_dhcp'',
         params = [(''id'', fld vlan ''id''), (''controllers'', controllers),
                   (''extra'', extra)]\<rparr>] \<and>
   map fst (params (last (sentData (region (snd (configureDHCP vlan controllers extra w)))))) =
     [''id'', ''controllers'', ''extra''] \<and>
   sentData (region (snd (disableDHCP vlan w))) =
     sentData (region w) @
       [\<lparr>requestId = lastId (region w) + 1, methodName = ''vlan.configure_dhcp'',
         params = [(''id'', fld vlan ''id''), (''controllers'', JArr [])]\<rparr>] \<and>
   map fst (params (last (sentData (region (snd (disableDHCP vlan w)))))) =
     [''id'', ''controllers'']"
  by (simp add: configureDHCP_def disableDHCP_def split_beta callMethod_sent)

text \<open>
  C3. For every vlan object, \<open>deleteVLAN\<close> returns the promise of \<open>callMethod\<close> itself; the
  one request it sends has method \<open>vlan.delete\<close> and params with the single key \<open>id\<close> bound
  to \<open>vlan.id\<close>; and the manager, with its cached collection, is the same after the call.
  The response to that request settles the promise and leaves the manager as it is, as
  every response frame does. On a client built by the constructor, at every moment, only
  the notifier of the constructor is registered and the cached primary keys are distinct;
  there, a \<open>delete\<close> notification for \<open>"vlan"\<close> removes the object with that primary key, which
  is then no longer cached, and every other event (a call of a remote method, a response,
  any other notification) removes no primary key from the collection and does not make it
  shorter.
\<close>

theorem deleteVLAN_leaves_removal_to_notification:
  "fst (deleteVLAN vlan w) =
     fst (callMethod ''vlan.delete'' [(''id'', fld vlan ''id'')] True (region w)) \<and>
   fst (deleteVLAN vlan w) = RpcPromise (lastId (region w) + 1) \<and>
   sentData (region (snd (deleteVLAN vlan w))) =
     sentData (region w) @
       [\<lparr>requestId = lastId (region w) + 1, methodName = ''vlan.delete'',
         params = [(''id'', fld vlan ''id'')]\<rparr>] \<and>
   vlans (snd (deleteVLAN vlan w)) = vlans w \<and>
   items (vlans (snd (deleteVLAN vlan w))) = items (vlans w) \<and>
   settledPromises
     (receive (ResultFrame (lastId (region (site cl)) + 1) res)
        (client_step cl (CallDeleteVLAN vlan))) =
     settledPromises cl @ [(lastId (region (site cl)) + 1, Resolved res)] \<and>
   vlans (site
     (receive (ResultFrame (lastId (region (site cl)) + 1) res)
        (client_step cl (CallDeleteVLAN vlan)))) = vlans (site cl) \<and>
   vlans (site (receive (ResultFrame rid res) cl)) = vlans (site cl) \<and>
   vlans (site (receive (ErrorFrame rid err) cl)) = vlans (site cl) \<and>
   notifiers (client_run (new_VLANsManager c) evs) = [(''vlan'', VlanOnNotify)] \<and>
   distinct (pks (vlans (site (client_run (new_VLANsManager c) evs)))) \<and>
   (notifiers cl = [(''vlan'', VlanOnNotify)] \<longrightarrow>
      items (vlans (site (receive (NotifyFrame ''vlan'' (Deleted k)) cl))) =
        removeFirst (hasPk (vlans (site cl)) k) (items (vlans (site cl)))) \<and>
   (notifiers cl = [(''vlan'', VlanOnNotify)] \<and> distinct (pks (vlans (site cl))) \<longrightarrow>
      k \<notin> set (pks (vlans (site (receive (NotifyFrame ''vlan'' (Deleted k)) cl))))) \<and>
   (notifiers cl = [(''vlan'', VlanOnNotify)] \<and>
    (\<forall>x. e \<noteq> Receive (NotifyFrame ''vlan'' (Deleted x))) \<longrightarrow>
      set (pks (vlans (site cl))) \<subseteq> set (pks (vlans (site (client_step cl e)))) \<and>
      length (items (vlans (site cl))) \<le> length (items (vlans (site (client_step cl e)))))"
proof -
  have call:
    "fst (deleteVLAN vlan w) =
       fst (callMethod ''vlan.delete'' [(''id'', fld vlan ''id'')] True (region w)) \<and>
     fst (deleteVLAN vlan w) = RpcPromise (lastId (region w) + 1) \<and>
     sentData (region (snd (deleteVLAN vlan w))) =
       sentData (region w) @
         [\<lparr>requestId = lastId (region w) + 1, methodName = ''vlan.delete'',
           params = [(''id'', fld vlan ''id'')]\<rparr>] \<and>
     vlans (snd (deleteVLAN vlan w)) = vlans w \<and>
     items (vlans (snd (deleteVLAN vlan w))) = items (vlans w)"
    by (simp add: deleteVLAN_def split_beta callMethod_promise callMethod_sent)
  have own1:
    "settledPromises
       (receive (ResultFrame (lastId (region (site cl)) + 1) res)
          (client_step cl (CallDeleteVLAN vlan))) =
       settledPromises cl @ [(lastId (region (site cl)) + 1, Resolved res)]"
    by (simp add: settle_def deleteVLAN_def callMethod_def Let_def)
  have own2:
    "vlans (site
       (receive (ResultFrame (lastId (region (site cl)) + 1) res)
          (client_step cl (CallDeleteVLAN vlan)))) = vlans (site cl)"
    by (simp add: settle_vlans call_vlans)
  have resp: "vlans (site (receive (ResultFrame rid res) cl)) = vlans (site cl)"
    "vlans (site (receive (ErrorFrame rid err) cl)) = vlans (site cl)"
    by (simp_all add: settle_vlans)
  have reg: "notifiers (client_run (new_VLANsManager c) evs) = [(''vlan'', VlanOnNotify)]"
    using new_VLANsManager_notifiers by (rule client_run_notifiers)
  have "distinct (pks (vlans (site (new_VLANsManager c))))"
    by (simp add: pks_def new_VLANsManager_items)
  with new_VLANsManager_notifiers
  have dis: "distinct (pks (vlans (site (client_run (new_VLANsManager c) evs))))"
    by (rule client_run_distinct)
  have del: "items (vlans (site (receive (NotifyFrame ''vlan'' (Deleted k)) cl))) =
      removeFirst (hasPk (vlans (site cl)) k) (items (vlans (site cl)))"
    if "notifiers cl = [(''vlan'', VlanOnNotify)]"
    using that by (simp add: receive_notify_vlan)
  have gone: "k \<notin> set (pks (vlans (site (receive (NotifyFrame ''vlan'' (Deleted k)) cl))))"
    if "notifiers cl = [(''vlan'', VlanOnNotify)]" and "distinct (pks (vlans (site cl)))"
    using that by (simp add: receive_notify_vlan pks_Deleted del: onNotify.simps)
  have only:
    "set (pks (vlans (site cl))) \<subseteq> set (pks (vlans (site (client_step cl e)))) \<and>
     length (items (vlans (site cl))) \<le> length (items (vlans (site (client_step cl e))))"
    if "notifiers cl = [(''vlan'', VlanOnNotify)]"
      and "\<forall>x. e \<noteq> Receive (NotifyFrame ''vlan'' (Deleted x))"
    using that by (rule no_removal_without_Deleted)
  from call own1 own2 resp reg dis del gone only show ?thesis by blast
qed

text \<open>
  C3 on a fresh connection: the manager is constructed, the vlan \<open>{id: 3, vid: 10}\<close> arrives
  by a \<open>create\<close> notification and \<open>deleteVLAN\<close> is called for it. The response to request 1
  leaves the vlan in the collection; the \<open>delete\<close> notification for the primary key 3
  empties the collection.
\<close>

theorem deleteVLAN_leaves_removal_to_notification_witness:
  "notifiers (client_run (new_VLANsManager \<lparr>lastId = 0, pending = [], sentData = []\<rparr>)
      [Receive (NotifyFrame ''vlan'' (Created [(''id'', JNum 3), (''vid'', JNum 10)])),
       CallDeleteVLAN [(''id'', JNum 3), (''vid'', JNum 10)]]) = [(''vlan'', VlanOnNotify)] \<and>
   distinct (pks (vlans (site
     (client_run (new_VLANsManager \<lparr>lastId = 0, pending = [], sentData = []\<rparr>)
      [Receive (NotifyFrame ''vlan'' (Created [(''id'', JNum 3), (''vid'', JNum 10)])),
       CallDeleteVLAN [(''id'', JNum 3), (''vid'', JNum 10)]])))) \<and>
   items (vlans (site (client_step
     (client_run (new_VLANsManager \<lparr>lastId = 0, pending = [], sentData = []\<rparr>)
      [Receive (NotifyFrame ''vlan'' (Created [(''id'', JNum 3), (''vid'', JNum 10)])),
       CallDeleteVLAN [(''id'', JNum 3), (''vid'', JNum 10)]])
     (Receive (ResultFrame 1 JNull))))) = [[(''id'', JNum 3), (''vid'', JNum 10)]] \<and>
   items (vlans (site (receive (NotifyFrame ''vlan'' (Deleted (JNum 3)))
     (client_run (new_VLANsManager \<lparr>lastId = 0, pending = [], sentData = []\<rparr>)
      [Receive (NotifyFrame ''vlan'' (Created [(''id'', JNum 3), (''vid'', JNum 10)])),
       CallDeleteVLAN [(''id'', JNum 3), (''vid'', JNum 10)]])))) = []"
  using deleteVLAN_leaves_removal_to_notification
          [where cl = "client_run (new_VLANsManager \<lparr>lastId = 0, pending = [], sentData = []\<rparr>)
                [Receive (NotifyFrame ''vlan'' (Created [(''id'', JNum 3), (''vid'', JNum 10)])),
                 CallDeleteVLAN [(''id'', JNum 3), (''vid'', JNum 10)]]"
             and k = "JNum 3"
             and e = "Receive (ResultFrame 1 JNull)"]
  by (simp add: client_run_def new_VLANsManager_def registerNotifier_def VLANsManager_def
        pks_def hasPk_def strictEq_def fld_def deleteVLAN_def callMethod_def settle_def Let_def)

text \<open>
  C9. \<open>getName\<close> returns \<open>"untagged"\<close> whenever \<open>vlan.vid === 0\<close>, whatever the name; otherwise
  the vid followed by the name in parentheses when the name is a non-empty string, and the
  vid itself when it is not.
\<close>

theorem getName_cases:
  "(fld vlan ''vid'' = JNum 0 \<longrightarrow> getName vlan = JStr ''untagged'') \<and>
   (fld vlan ''vid'' \<noteq> JNum 0 \<and> fld vlan ''name'' = JStr s \<and> s \<noteq> [] \<longrightarrow>
      getName vlan = JStr (toStr (fld vlan ''vid'') @ '' ('' @ s @ '')'')) \<and>
   (fld vlan ''vid'' \<noteq> JNum 0 \<and> \<not> (isString (fld vlan ''name'') \<and> fld vlan ''name'' \<noteq> JStr [])
      \<longrightarrow> getName vlan = fld vlan ''vid'')"
  by (simp add: getName_def Let_def)

text \<open>
  C9 at four vlans: vid 0 with a name, vid 7 with the name \<open>lab\<close>, with the empty name and
  with the name \<open>null\<close>.
\<close>

theorem getName_cases_witness:
  "getName [(''vid'', JNum 0), (''name'', JStr ''lab'')] = JStr ''untagged'' \<and>
   getName [(''vid'', JNum 7), (''name'', JStr ''lab'')] = JStr ''7 (lab)'' \<and>
   getName [(''vid'', JNum 7), (''name'', JStr [])] = JNum 7 \<and>
   getName [(''vid'', JNum 7), (''name'', JNull)] = JNum 7"
  using getName_cases [of "[(''vid'', JNum 0), (''name'', JStr ''lab'')]"]
        getName_cases [of "[(''vid'', JNum 7), (''name'', JStr ''lab'')]" "''lab''"]
        getName_cases [of "[(''vid'', JNum 7), (''name'', JStr [])]"]
        getName_cases [of "[(''vid'', JNum 7), (''name'', JNull)]"]
  by (simp add: fld_def int_str_def nat_str.simps)

section \<open>SubnetDetailsController: loading the subnet\<close>

text \<open>
  C4. Once the managers have loaded, when the active item of \<open>SubnetsManager\<close> is an object
  whose \<open>id\<close> is the integer that \<open>parseInt\<close> returns for the route parameter \<open>subnet_id\<close>,
  the callback does exactly what \<open>subnetLoaded\<close> does on that active item: the active item
  becomes \<open>$scope.subnet\<close>, \<open>$scope.loaded\<close> becomes true, the title is updated from it and
  the three watches are registered. No call of \<open>SubnetsManager.setActiveItem\<close> is recorded,
  and no error is raised.
\<close>

theorem active_subnet_used_directly:
  assumes "parseInt subnet_id = Num n" and "fld a ''id'' = JNum n"
  shows "managersLoaded parseInt (Some a) subnet_id st = subnetLoaded (Some a) st \<and>
         subnet (managersLoaded parseInt (Some a) subnet_id st) = Some a \<and>
         loaded (managersLoaded parseInt (Some a) subnet_id st) \<and>
         title (managersLoaded parseInt (Some a) subnet_id st) =
           title (updateTitle (st\<lparr>subnet := Some a, loaded := True\<rparr>)) \<and>
         watches (managersLoaded parseInt (Some a) subnet_id st) =
           watches st @ [(''subnet.fabric'', UpdateFabric), (''subnet.vlan'', UpdateFabric),
                         (''subnet.cidr'', UpdateIPVersion)] \<and>
         setActiveItemCalls (managersLoaded parseInt (Some a) subnet_id st) =
           setActiveItemCalls st \<and>
         raised (managersLoaded parseInt (Some a) subnet_id st) = raised st"
proof -
  have "managersLoaded parseInt (Some a) subnet_id st = subnetLoaded (Some a) st"
    using assms by (simp add: managersLoaded_def Let_def)
  then show ?thesis
    by (simp add: subnetLoaded_fields subnetLoaded_calls)
qed

text \<open>
  C4 at the route parameter \<open>"5"\<close>, which \<open>parseInt\<close> reads as 5, with the active subnet
  \<open>{id: 5, cidr: "10.0.0.0/24"}\<close>, on the controller's initial state: the active subnet
  becomes the subnet of the scope, the title is its CIDR, and no call of \<open>setActiveItem\<close>
  is recorded.
\<close>

theorem active_subnet_used_directly_witness:
  "(\<lambda>s. if s = ''5'' then Num 5 else NaN) ''5'' = Num 5 \<and>
   fld [(''id'', JNum 5), (''cidr'', JStr ''10.0.0.0/24'')] ''id'' = JNum 5 \<and>
   subnet (managersLoaded (\<lambda>s. if s = ''5'' then Num 5 else NaN)
       (Some [(''id'', JNum 5), (''cidr'', JStr ''10.0.0.0/24'')]) ''5''
       (init () ''/subnet/5'' :: (unit, unit) controller)) =
     Some [(''id'', JNum 5), (''cidr'', JStr ''10.0.0.0/24'')] \<and>
   loaded (managersLoaded (\<lambda>s. if s = ''5'' then Num 5 else NaN)
       (Some [(''id'', JNum 5), (''cidr'', JStr ''10.0.0.0/24'')]) ''5''
       (init () ''/subnet/5'' :: (unit, unit) controller)) \<and>
   title (managersLoaded (\<lambda>s. if s = ''5'' then Num 5 else NaN)
       (Some [(''id'', JNum 5), (''cidr'', JStr ''10.0.0.0/24'')]) ''5''
       (init () ''/subnet/5'' :: (unit, unit) controller)) = JStr ''10.0.0.0/24'' \<and>
   setActiveItemCalls (managersLoaded (\<lambda>s. if s = ''5'' then Num 5 else NaN)
       (Some [(''id'', JNum 5), (''cidr'', JStr ''10.0.0.0/24'')]) ''5''
       (init () ''/subnet/5'' :: (unit, unit) controller)) = []"
  using active_subnet_used_directly
          [where parseInt = "\<lambda>s. if s = ''5'' then Num 5 else NaN"
             and subnet_id = "''5''"
             and n = 5
             and a = "[(''id'', JNum 5), (''cidr'', JStr ''10.0.0.0/24'')]"
             and st = "init () ''/subnet/5'' :: (unit, unit) controller"]
  by (simp add: init_def subnetLoaded_def updateTitle_def fld_def strictEq_def Let_def)

section \<open>SubnetDetailsController: resolving foreign keys\<close>

text \<open>
  C5, as claimed, fails. With no VLAN cached, \<open>updateFabric\<close> on the subnet
  \<open>{id: 5, vlan: 1}\<close> finds no VLAN and throws a TypeError; with no fabric cached,
  \<open>subnetPreSave\<close> on the subnet \<open>{id: 5, fabric: 2}\<close> with \<open>fabric\<close> among the changed fields
  finds no fabric and throws a TypeError.
\<close>

theorem missing_referent_faults:
  "getItemFromList [] (fld [(''id'', JNum 5), (''vlan'', JNum 1)] ''vlan'') = None \<and>
   updateFabric [] ((init () ''/subnet/5'' :: (unit, unit) controller)
      \<lparr>subnet := Some [(''id'', JNum 5), (''vlan'', JNum 1)]\<rparr>) = Inl TypeError \<and>
   getItemFromList [] (fld [(''id'', JNum 5), (''fabric'', JNum 2)] ''fabric'') = None \<and>
   subnetPreSave [] [(''id'', JNum 5), (''fabric'', JNum 2)] [''fabric''] = Inl TypeError"
  by (simp add: updateFabric_def subnetPreSave_def getItemFromList_def fld_def init_def)

text \<open>
  C5, amended. The resolution does not tolerate a missing referent. For a loaded subnet,
  \<open>updateFabric\<close> completes, setting \<open>subnet.fabric\<close> to the fabric of the VLAN, when
  \<open>subnet.vlan\<close> has a matching VLAN in the collection, and throws a TypeError when it has
  none. \<open>subnetPreSave\<close> with \<open>fabric\<close> among the changed fields completes, setting
  \<open>subnet.vlan\<close> to the default VLAN of the fabric, when \<open>subnet.fabric\<close> has a matching
  fabric, and throws a TypeError when it has none; with \<open>fabric\<close> not among the changed
  fields it returns the subnet as it is, without any lookup.
\<close>

theorem foreign_key_resolution:
  "(subnet st = Some s \<and> getItemFromList vlanItems (fld s ''vlan'') = Some vlan \<longrightarrow>
      updateFabric vlanItems st =
        Inr (st\<lparr>subnet := Some (put s ''fabric'' (fld vlan ''fabric''))\<rparr>)) \<and>
   (subnet st = Some s \<and> getItemFromList vlanItems (fld s ''vlan'') = None \<longrightarrow>
      updateFabric vlanItems st = Inl TypeError) \<and>
   (''fabric'' \<in> set changedFields \<and>
    getItemFromList fabricItems (fld sn ''fabric'') = Some fabric \<longrightarrow>
      subnetPreSave fabricItems sn changedFields =
        Inr (put sn ''vlan'' (fld fabric ''default_vlan_id''))) \<and>
   (''fabric'' \<in> set changedFields \<and>
    getItemFromList fabricItems (fld sn ''fabric'') = None \<longrightarrow>
      subnetPreSave fabricItems sn changedFields = Inl TypeError) \<and>
   (''fabric'' \<notin> set changedFields \<longrightarrow> subnetPreSave fabricItems sn changedFields = Inr sn)"
  by (simp add: updateFabric_def subnetPreSave_def)

text \<open>
  C5, amended, at the subnet \<open>{id: 5, vlan: 1}\<close> with the VLAN \<open>{id: 1, fabric: 9}\<close> cached
  and with no VLAN cached, and at the subnet \<open>{id: 5, vlan: 1, fabric: 2}\<close> with the fabric
  \<open>{id: 2, default_vlan_id: 11}\<close> cached and with no fabric cached.
\<close>

theorem foreign_key_resolution_witness:
  "updateFabric [[(''id'', JNum 1), (''fabric'', JNum 9)]]
      ((init () ''/subnet/5'' :: (unit, unit) controller)
        \<lparr>subnet := Some [(''id'', JNum 5), (''vlan'', JNum 1)]\<rparr>) =
     Inr ((init () ''/subnet/5'')
        \<lparr>subnet := Some [(''id'', JNum 5), (''vlan'', JNum 1), (''fabric'', JNum 9)]\<rparr>) \<and>
   updateFabric []
      ((init () ''/subnet/5'' :: (unit, unit) controller)
        \<lparr>subnet := Some [(''id'', JNum 5), (''vlan'', JNum 1)]\<rparr>) = Inl TypeError \<and>
   subnetPreSave [[(''id'', JNum 2), (''default_vlan_id'', JNum 11)]]
      [(''id'', JNum 5), (''vlan'', JNum 1), (''fabric'', JNum 2)] [''fabric''] =
     Inr [(''id'', JNum 5), (''vlan'', JNum 11), (''fabric'', JNum 2)] \<and>
   subnetPreSave [] [(''id'', JNum 5), (''vlan'', JNum 1), (''fabric'', JNum 2)] [''fabric''] =
     Inl TypeError \<and>
   subnetPreSave [] [(''id'', JNum 5), (''vlan'', JNum 1), (''fabric'', JNum 2)] [''name''] =
     Inr [(''id'', JNum 5), (''vlan'', JNum 1), (''fabric'', JNum 2)]"
  using foreign_key_resolution
          [where st = "(init () ''/subnet/5'' :: (unit, unit) controller)
                 \<lparr>subnet := Some [(''id'', JNum 5), (''vlan'', JNum 1)]\<rparr>"
             and s = "[(''id'', JNum 5), (''vlan'', JNum 1)]"
             and vlanItems = "[[(''id'', JNum 1), (''fabric'', JNum 9)]]"
             and vlan = "[(''id'', JNum 1), (''fabric'', JNum 9)]"
             and changedFields = "[''fabric'']"
             and fabricItems = "[[(''id'', JNum 2), (''default_vlan_id'', JNum 11)]]"
             and sn = "[(''id'', JNum 5), (''vlan'', JNum 1), (''fabric'', JNum 2)]"
             and fabric = "[(''id'', JNum 2), (''default_vlan_id'', JNum 11)]"]
        foreign_key_resolution
          [where st = "(init () ''/subnet/5'' :: (unit, unit) controller)
                 \<lparr>subnet := Some [(''id'', JNum 5), (''vlan'', JNum 1)]\<rparr>"
             and s = "[(''id'', JNum 5), (''vlan'', JNum 1)]"
             and vlanItems = "[]"
             and vlan = "[]"
             and changedFields = "[''fabric'']"
             and fabricItems = "[]"
             and sn = "[(''id'', JNum 5), (''vlan'', JNum 1), (''fabric'', JNum 2)]"
             and fabric = "[]"]
        foreign_key_resolution
          [where st = "(init () ''/subnet/5'' :: (unit, unit) controller)
                 \<lparr>subnet := Some [(''id'', JNum 5), (''vlan'', JNum 1)]\<rparr>"
             and s = "[(''id'', JNum 5), (''vlan'', JNum 1)]"
             and vlanItems = "[]"
             and vlan = "[]"
             and changedFields = "[''name'']"
             and fabricItems = "[]"
             and sn = "[(''id'', JNum 5), (''vlan'', JNum 1), (''fabric'', JNum 2)]"
             and fabric = "[]"]
  by (simp add: getItemFromList_def strictEq_def fld_def init_def)

section \<open>SubnetDetailsController: type names\<close>

text \<open>
  C6. For every allocation-type code outside 0, 1, 4, 5, 6, \<open>getAllocType\<close> returns
  \<open>"Unknown"\<close>, and for every node-type code outside 0, 1, 2, 3, 4, \<open>getNodeType\<close> returns
  \<open>"Unknown"\<close>; for the codes inside, each returns the name the table gives.
\<close>

theorem type_names:
  "(n \<notin> {0, 1, 4, 5, 6} \<longrightarrow> getAllocType (JNum n) = JStr ''Unknown'') \<and>
   (m \<notin> {0, 1, 2, 3, 4} \<longrightarrow> getNodeType (JNum m) = JStr ''Unknown'') \<and>
   getAllocType (JNum 0) = JStr ''Automatic'' \<and>
   getAllocType (JNum 1) = JStr ''Static'' \<and>
   getAllocType (JNum 4) = JStr ''User reserved'' \<and>
   getAllocType (JNum 5) = JStr ''DHCP'' \<and>
   getAllocType (JNum 6) = JStr ''Observed'' \<and>
   getNodeType (JNum 0) = JStr ''Machine'' \<and>
   getNodeType (JNum 1) = JStr ''Device'' \<and>
   getNodeType (JNum 2) = JStr ''Rack controller'' \<and>
   getNodeType (JNum 3) = JStr ''Region controller'' \<and>
   getNodeType (JNum 4) = JStr ''Rack and region controller''"
proof -
  have a: "fld ALLOC_TYPES (int_str i) =
      (if i = 0 then JStr ''Automatic'' else if i = 1 then JStr ''Static''
       else if i = 4 then JStr ''User reserved'' else if i = 5 then JStr ''DHCP''
       else if i = 6 then JStr ''Observed'' else JUndefined)" for i
    by (simp add: fld_def ALLOC_TYPES_def int_str_digits)
  have b: "fld NODE_TYPES (int_str i) =
      (if i = 0 then JStr ''Machine'' else if i = 1 then JStr ''Device''
       else if i = 2 then JStr ''Rack controller'' else if i = 3 then JStr ''Region controller''
       else if i = 4 then JStr ''Rack and region controller'' else JUndefined)" for i
    by (simp add: fld_def NODE_TYPES_def int_str_digits)
  show ?thesis
    by (simp add: getAllocType_def getNodeType_def a b)
qed

text \<open>C6 at the allocation-type codes 2, 3 and 7 and the node-type codes 5 and -1.\<close>

theorem type_names_witness:
  "(2::int) \<notin> {0, 1, 4, 5, 6} \<and> getAllocType (JNum 2) = JStr ''Unknown'' \<and>
   (3::int) \<notin> {0, 1, 4, 5, 6} \<and> getAllocType (JNum 3) = JStr ''Unknown'' \<and>
   (7::int) \<notin> {0, 1, 4, 5, 6} \<and> getAllocType (JNum 7) = JStr ''Unknown'' \<and>
   (5::int) \<notin> {0, 1, 2, 3, 4} \<and> getNodeType (JNum 5) = JStr ''Unknown'' \<and>
   (- 1::int) \<notin> {0, 1, 2, 3, 4} \<and> getNodeType (JNum (- 1)) = JStr ''Unknown''"
  using type_names [of 2 5] type_names [of 3 "- 1"] type_names [of 7 5]
  by simp

section \<open>SubnetDetailsController: deleting the subnet\<close>

text \<open>
  C7. When the promise of \<open>deleteSubnet\<close> is rejected, \<open>deleteConfirmButton\<close> stores
  \<open>parseValidationError(error)\<close> in \<open>$scope.error\<close> and leaves the location path and
  \<open>confirmingDelete\<close> as they were; when it is resolved, \<open>confirmingDelete\<close> becomes false
  and the location path becomes \<open>/networks\<close>.
\<close>

theorem deleteConfirmButton_branches:
  "error (deleteConfirmButton pve (Rejected err) st) = pve err \<and>
   path (deleteConfirmButton pve (Rejected err) st) = path st \<and>
   confirmingDelete (deleteConfirmButton pve (Rejected err) st) = confirmingDelete st \<and>
   confirmingDelete (deleteConfirmButton pve (Resolved u) st) = JBool False \<and>
   path (deleteConfirmButton pve (Resolved u) st) = ''/networks'' \<and>
   error (deleteConfirmButton pve (Resolved u) st) = error st"
  by (simp add: deleteConfirmButton_def Let_def)

section \<open>SubnetDetailsController: edit and delete modes of IP ranges\<close>

text \<open>
  C8. \<open>$scope.editIPRange\<close> and \<open>$scope.deleteIPRange\<close> both start \<open>null\<close>; after
  \<open>ipRangeToggleEditMode\<close>, \<open>ipRangeEnterDeleteMode\<close> or \<open>ipRangeCancelDelete\<close>, from any
  state, at most one of them is not \<open>null\<close>; and so it is after every sequence of these
  operations and of \<open>ipRangeConfirmDelete\<close> from the initial state.
\<close>

theorem ip_range_modes_exclusive:
  "editIPRange (init ipSort path0) = None \<and>
   deleteIPRange (init ipSort path0) = None \<and>
   one_mode (init ipSort path0) \<and>
   one_mode (ipRangeToggleEditMode rng st) \<and>
   one_mode (ipRangeEnterDeleteMode rng st) \<and>
   one_mode (ipRangeCancelDelete st) \<and>
   one_mode (mode_run (init ipSort path0) ops)"
proof -
  have i: "one_mode (init ipSort path0)" by (simp add: one_mode_def init_def)
  have t: "one_mode (ipRangeToggleEditMode rng st)"
    by (simp add: one_mode_def ipRangeToggleEditMode_def Let_def)
  have e: "one_mode (ipRangeEnterDeleteMode rng st)"
    by (simp add: one_mode_def ipRangeEnterDeleteMode_def)
  have c: "one_mode (ipRangeCancelDelete st)"
    by (simp add: one_mode_def ipRangeCancelDelete_def)
  have r: "one_mode (mode_run (init ipSort path0) ops)"
    using i by (rule mode_run_one_mode)
  have n: "editIPRange (init ipSort path0) = None \<and> deleteIPRange (init ipSort path0) = None"
    by (simp add: init_def)
  from n i t e c r show ?thesis by blast
qed

section \<open>SubnetDetailsController: sorting the IP table\<close>

text \<open>
  C10. \<open>sortIPTable(p)\<close> sets the predicate to \<open>p\<close> and negates \<open>reverse\<close>; called twice with
  the same predicate from any state, it leaves \<open>reverse\<close> as it was, the predicate being
  \<open>p\<close>, and changes nothing else.
\<close>

theorem sortIPTable_twice:
  "predicate (sortIPTable p st) = p \<and>
   reverse (sortIPTable p st) = (\<not> reverse st) \<and>
   predicate (sortIPTable p (sortIPTable p st)) = p \<and>
   reverse (sortIPTable p (sortIPTable p st)) = reverse st \<and>
   sortIPTable p (sortIPTable p st) = st\<lparr>predicate := p\<rparr>"
  by (simp add: sortIPTable_def)

end
